theory Spec2Isabelle
  imports Complex_Main
begin

section \<open>JavaScript values used by the controllers\<close>

subsection \<open>Strings\<close>

text \<open>
  A JavaScript string is modelled as a \<^typ>\<open>string\<close> whose characters are read as the
  code units \<open>0 .. 255\<close>.  In that range the white space of \<open>String.prototype.trim\<close> and of
  \<open>parseInt\<close> (WhiteSpace and LineTerminator of ECMAScript) is TAB, LF, VT, FF, CR, SPACE
  and NBSP.
\<close>

definition isWhiteSpace :: "char \<Rightarrow> bool" where
  "isWhiteSpace c \<longleftrightarrow> (of_char c :: nat) \<in> {9, 10, 11, 12, 13, 32, 160}"

definition trimStart :: "string \<Rightarrow> string" where
  "trimStart s = dropWhile isWhiteSpace s"

definition trim :: "string \<Rightarrow> string" where
  "trim s = rev (dropWhile isWhiteSpace (rev (dropWhile isWhiteSpace s)))"

text \<open>
  \<open>s.split(',')\<close>: the pieces between the commas, in order.  The empty string gives one
  empty piece, and \<open>n\<close> commas always give \<open>n + 1\<close> pieces.
\<close>

fun split_comma :: "string \<Rightarrow> string list" where
  "split_comma [] = [[]]"
| "split_comma (c # cs) =
     (if c = CHR '','' then [] # split_comma cs
      else (case split_comma cs of
              [] \<Rightarrow> [[c]]
            | t # ts \<Rightarrow> (c # t) # ts))"

text \<open>\<open>xs.join(',')\<close> on an array of strings.\<close>

fun join_comma :: "string list \<Rightarrow> string" where
  "join_comma [] = []"
| "join_comma [s] = s"
| "join_comma (s # t # ts) = s @ CHR '','' # join_comma (t # ts)"

subsection \<open>Query parameters\<close>

text \<open>
  A value of \<open>req.query\<close>, as the framework's query parser delivers it: a string, an array
  (a repeated parameter) or a nested object (bracket notation).  An absent parameter is
  \<open>undefined\<close>, modelled as \<^term>\<open>None\<close>.
\<close>

datatype qval = QStr string | QArr "qval list" | QObj "(string \<times> qval) list"

text \<open>\<open>ToString\<close>: an array joins the strings of its elements, an object has a fixed string.\<close>

fun toString :: "qval \<Rightarrow> string" where
  "toString (QStr s) = s"
| "toString (QArr vs) = join_comma (map toString vs)"
| "toString (QObj kvs) = ''[object Object]''"

definition toString_opt :: "qval option \<Rightarrow> string" where
  "toString_opt v = (case v of None \<Rightarrow> ''undefined'' | Some q \<Rightarrow> toString q)"

text \<open>\<open>ToBoolean\<close>: \<open>undefined\<close> and the empty string are falsy, every array and object is truthy.\<close>

definition truthy :: "qval option \<Rightarrow> bool" where
  "truthy v = (case v of None \<Rightarrow> False | Some (QStr s) \<Rightarrow> s \<noteq> [] | Some _ \<Rightarrow> True)"

subsection \<open>Numbers\<close>

text \<open>
  A JavaScript number is a double.  The model tracks \<open>NaN\<close> and the integers of magnitude at
  most \<open>2^53\<close>, on which the doubles are exact (negative zero is \<^term>\<open>0::int\<close>: both are
  falsy and both print as \<open>0\<close>).  Every other double, and every result computed from one,
  is \<open>Untracked\<close>: the model does not follow its value.
\<close>

datatype jsnum = NaN | Integer int | Untracked

definition mk_num :: "int \<Rightarrow> jsnum" where
  "mk_num n = (if \<bar>n\<bar> \<le> 2 ^ 53 then Integer n else Untracked)"

definition js_sub :: "jsnum \<Rightarrow> jsnum \<Rightarrow> jsnum" where
  "js_sub a b =
     (case (a, b) of
        (Integer x, Integer y) \<Rightarrow> mk_num (x - y)
      | (NaN, _) \<Rightarrow> NaN
      | (_, NaN) \<Rightarrow> NaN
      | _ \<Rightarrow> Untracked)"

definition js_mul :: "jsnum \<Rightarrow> jsnum \<Rightarrow> jsnum" where
  "js_mul a b =
     (case (a, b) of
        (Integer x, Integer y) \<Rightarrow> mk_num (x * y)
      | (NaN, _) \<Rightarrow> NaN
      | (_, NaN) \<Rightarrow> NaN
      | _ \<Rightarrow> Untracked)"


text \<open>
  \<open>parseInt(string)\<close> with no radix: skip leading white space, read a sign, read the prefix
  \<open>0x\<close> or \<open>0X\<close> (then the radix is 16, else 10), and take the longest run of digits of the
  radix.  No digit gives \<open>NaN\<close>; whatever follows the digits is ignored.
\<close>

definition digit_of :: "char \<Rightarrow> nat option" where
  "digit_of c =
     (let n = (of_char c :: nat) in
      if 48 \<le> n \<and> n \<le> 57 then Some (n - 48)
      else if 97 \<le> n \<and> n \<le> 102 then Some (n - 87)
      else if 65 \<le> n \<and> n \<le> 70 then Some (n - 55)
      else None)"

definition isDigit :: "nat \<Rightarrow> char \<Rightarrow> bool" where
  "isDigit R c = (case digit_of c of None \<Rightarrow> False | Some d \<Rightarrow> d < R)"

fun digits_value :: "nat \<Rightarrow> nat \<Rightarrow> string \<Rightarrow> nat" where
  "digits_value R acc [] = acc"
| "digits_value R acc (c # cs) =
     digits_value R (acc * R + (case digit_of c of None \<Rightarrow> 0 | Some d \<Rightarrow> d)) cs"

definition parseInt :: "string \<Rightarrow> jsnum" where
  "parseInt inputString =
     (let S = trimStart inputString;
          sign = (case S of c # _ \<Rightarrow> if c = CHR ''-'' then - 1 else 1 | [] \<Rightarrow> (1::int));
          S1 = (case S of c # r \<Rightarrow> if c = CHR ''+'' \<or> c = CHR ''-'' then r else S | [] \<Rightarrow> S);
          hex = (case S1 of a # b # _ \<Rightarrow> a = CHR ''0'' \<and> (b = CHR ''x'' \<or> b = CHR ''X'')
                 | _ \<Rightarrow> False);
          R = (if hex then 16 else 10);
          S2 = (if hex then drop 2 S1 else S1);
          Z = takeWhile (isDigit R) S2
      in if Z = [] then NaN else mk_num (sign * int (digits_value R 0 Z)))"

section \<open>Query shaping of the list operations\<close>

subsection \<open>Pagination and sorting\<close>

record query =
  q_page :: "qval option"
  q_limit :: "qval option"
  q_sort :: "qval option"
  q_populate :: "qval option"

text \<open>
  \<open>x || d\<close> on a result \<open>x\<close> of \<open>parseInt\<close>: \<open>NaN\<close> and zero are falsy and give the default
  \<open>d\<close>.  An untracked result of \<open>parseInt\<close> is an integer beyond \<open>2^53\<close> or an infinity,
  which is truthy.
\<close>

definition or_default :: "jsnum \<Rightarrow> int \<Rightarrow> jsnum" where
  "or_default x d =
     (case x of
        NaN \<Rightarrow> Integer d
      | Integer n \<Rightarrow> if n = 0 then Integer d else Integer n
      | Untracked \<Rightarrow> Untracked)"

text \<open>
  \<open>const limit = parseInt(req.query.limit) || 10;\<close> and
  \<open>const page = parseInt(req.query.page) || 1;\<close>, the same two lines in both controllers.
\<close>

definition limit :: "query \<Rightarrow> jsnum" where
  "limit q = or_default (parseInt (toString_opt (q_limit q))) 10"

definition page :: "query \<Rightarrow> jsnum" where
  "page q = or_default (parseInt (toString_opt (q_page q))) 1"

datatype direction = ASC | DESC

text \<open>\<open>const sortOrder = req.query.sort === 'desc' ? 'DESC' : 'ASC';\<close>\<close>

definition sortOrder :: "query \<Rightarrow> direction" where
  "sortOrder q = (if q_sort q = Some (QStr ''desc'') then DESC else ASC)"

subsection \<open>Include trees\<close>

datatype entity_model = Course | Teacher | Student

text \<open>
  An include node \<open>{ model: M, include: [...] }\<close>; the nested list is \<^term>\<open>None\<close> for a
  node written without the property, as \<open>{ model: db.Student }\<close>.
\<close>

datatype inc = Inc (inc_model: entity_model) (inc_include: "inc list option")

text \<open>
  The object \<open>validRelations\<close> has no property other than \<open>CourseId\<close>; it is modelled by the
  value of that property, \<^term>\<open>None\<close> when it is undefined.
\<close>

type_synonym validRelations = "inc option"

definition object_values :: "validRelations \<Rightarrow> inc list" where
  "object_values vr = (case vr of None \<Rightarrow> [] | Some n \<Rightarrow> [n])"

text \<open>\<open>validRelations.CourseId.include.push(x)\<close>; a read through \<open>undefined\<close> throws.\<close>

definition push_include :: "inc \<Rightarrow> validRelations \<Rightarrow> string + validRelations" where
  "push_include x vr =
     (case vr of
        None \<Rightarrow> Inl ''Cannot read properties of undefined (reading 'include')''
      | Some n \<Rightarrow>
          (case inc_include n of
             None \<Rightarrow> Inl ''Cannot read properties of undefined (reading 'push')''
           | Some xs \<Rightarrow> Inr (Some (Inc (inc_model n) (Some (xs @ [x]))))))"

text \<open>\<open>validRelations.CourseId.include = [];\<close>\<close>

definition reset_include :: "validRelations \<Rightarrow> string + validRelations" where
  "reset_include vr =
     (case vr of
        None \<Rightarrow> Inl ''Cannot set properties of undefined (setting 'include')''
      | Some n \<Rightarrow> Inr (Some (Inc (inc_model n) (Some []))))"

text \<open>\<open>populate.split(',').map(r => r.trim())\<close>\<close>

definition relations :: "string \<Rightarrow> string list" where
  "relations populate = map trim (split_comma populate)"

text \<open>
  The populate block of \<open>getAllTeachers\<close> (teacher.controller.js, lines 82 to 109).  The
  result is the array \<open>include\<close>, or the message of the exception: a truthy \<open>populate\<close> that
  is not a string has no method \<open>split\<close>.
\<close>

definition teacher_include :: "query \<Rightarrow> string + inc list" where
  "teacher_include q =
     (if truthy (q_populate q) then
        (case q_populate q of
           Some (QStr populate) \<Rightarrow>
             (let rels = relations populate;
                  vr1 = (if ''CourseId'' \<in> set rels then Some (Inc Course (Some [])) else None)
              in if ''StudentId'' \<in> set rels then
                   (let vr2 = (if vr1 = None then Some (Inc Course (Some [])) else vr1)
                    in case push_include (Inc Student None) vr2 of
                         Inl e \<Rightarrow> Inl e
                       | Inr vr3 \<Rightarrow> Inr (object_values vr3))
                 else Inr (object_values vr1))
         | _ \<Rightarrow> Inl ''populate.split is not a function'')
      else Inr [])"

text \<open>
  One turn of the loop \<open>for (const rel of relations)\<close> of \<open>getAllStudents\<close>
  (student.controller.js, lines 74 to 89), and the loop.
\<close>

definition student_rel :: "string \<Rightarrow> validRelations \<Rightarrow> string + validRelations" where
  "student_rel rel vr =
     (case (if rel = ''CourseId'' then reset_include vr else Inr vr) of
        Inl e \<Rightarrow> Inl e
      | Inr vr1 \<Rightarrow>
          if rel = ''TeacherId'' then
            (if vr1 \<noteq> None then push_include (Inc Teacher None) vr1
             else Inr (Some (Inc Course (Some [Inc Teacher None]))))
          else Inr vr1)"

fun student_rels :: "string list \<Rightarrow> validRelations \<Rightarrow> string + validRelations" where
  "student_rels [] vr = Inr vr"
| "student_rels (rel # rels) vr =
     (case student_rel rel vr of
        Inl e \<Rightarrow> Inl e
      | Inr vr1 \<Rightarrow> student_rels rels vr1)"

text \<open>The populate block of \<open>getAllStudents\<close> (student.controller.js, lines 61 to 92).\<close>

definition student_include :: "query \<Rightarrow> string + inc list" where
  "student_include q =
     (let validRelations = Some (Inc Course (Some []))
      in if truthy (q_populate q) then
           (case q_populate q of
              Some (QStr populate) \<Rightarrow>
                (case student_rels (relations populate) validRelations of
                   Inl e \<Rightarrow> Inl e
                 | Inr vr \<Rightarrow> Inr (object_values vr))
            | _ \<Rightarrow> Inl ''populate.split is not a function'')
         else Inr [])"

subsection \<open>The options of \<open>findAll\<close>\<close>

record findOptions =
  opt_limit :: jsnum
  opt_offset :: jsnum
  opt_order :: "(string \<times> direction) list"
  opt_include :: "inc list"

text \<open>
  The object passed to \<open>findAll\<close>:
  \<open>{ limit, offset: (page - 1) * limit, order: [['createdAt', sortOrder]], include }\<close>.
\<close>

definition mk_options :: "query \<Rightarrow> inc list \<Rightarrow> findOptions" where
  "mk_options q incl =
     \<lparr>opt_limit = limit q,
      opt_offset = js_mul (js_sub (page q) (Integer 1)) (limit q),
      opt_order = [(''createdAt'', sortOrder q)],
      opt_include = incl\<rparr>"

definition teacher_options :: "query \<Rightarrow> string + findOptions" where
  "teacher_options q =
     (case teacher_include q of Inl e \<Rightarrow> Inl e | Inr incl \<Rightarrow> Inr (mk_options q incl))"

definition student_options :: "query \<Rightarrow> string + findOptions" where
  "student_options q =
     (case student_include q of Inl e \<Rightarrow> Inl e | Inr incl \<Rightarrow> Inr (mk_options q incl))"

section \<open>The resource controllers\<close>

subsection \<open>Responses and the persistence handle\<close>

text \<open>
  The JSON bodies the controllers send: an entity, \<open>{ message }\<close>, \<open>{ error }\<close>, and the
  list envelope \<open>{ meta: { totalItems, page, totalPages }, data }\<close>.
\<close>

datatype 'e body =
    Entity 'e
  | Message string
  | Error string
  | Listing (totalItems: jsnum) (meta_page: jsnum) (totalPages: jsnum) (data: "'e list")

record 'e response =
  status :: nat
  body :: "'e body"

text \<open>
  The handle \<open>db.Student\<close> or \<open>db.Teacher\<close> is a parameter of the controllers: the calls
  they await on it, over a database state \<open>'s\<close>.  A call returns its value, or the message
  of the exception it rejects with (\<^term>\<open>Inl\<close>); \<open>update\<close> and \<open>destroy\<close> also return the
  new state.  \<open>'k\<close> is the type of \<open>req.params.id\<close>, \<open>'e\<close> of an entity, \<open>'b\<close> of \<open>req.body\<close>.
\<close>

record ('s, 'k, 'e, 'b) orm =
  count :: "'s \<Rightarrow> string + nat"
  findAll :: "findOptions \<Rightarrow> 's \<Rightarrow> string + 'e list"
  findByPk :: "'k \<Rightarrow> entity_model list \<Rightarrow> 's \<Rightarrow> string + 'e option"
  update :: "'e \<Rightarrow> 'b \<Rightarrow> 's \<Rightarrow> (string + 'e) \<times> 's"
  destroy :: "'e \<Rightarrow> 's \<Rightarrow> (string + unit) \<times> 's"


subsection \<open>student.controller.js\<close>


definition getStudentById :: "('s, 'k, 'e, 'b) orm \<Rightarrow> 'k \<Rightarrow> 's \<Rightarrow> 'e response" where
  "getStudentById db_Student ident s =
     (case findByPk db_Student ident [Course] s of
        Inl e \<Rightarrow> \<lparr>status = 500, body = Error e\<rparr>
      | Inr None \<Rightarrow> \<lparr>status = 404, body = Message ''Not found''\<rparr>
      | Inr (Some student) \<Rightarrow> \<lparr>status = 200, body = Entity student\<rparr>)"

definition updateStudent ::
  "('s, 'k, 'e, 'b) orm \<Rightarrow> 'k \<Rightarrow> 'b \<Rightarrow> 's \<Rightarrow> 'e response \<times> 's" where
  "updateStudent db_Student ident req_body s =
     (case findByPk db_Student ident [] s of
        Inl e \<Rightarrow> (\<lparr>status = 500, body = Error e\<rparr>, s)
      | Inr None \<Rightarrow> (\<lparr>status = 404, body = Message ''Not found''\<rparr>, s)
      | Inr (Some student) \<Rightarrow>
          (case update db_Student student req_body s of
             (Inl e, s') \<Rightarrow> (\<lparr>status = 500, body = Error e\<rparr>, s')
           | (Inr student', s') \<Rightarrow> (\<lparr>status = 200, body = Entity student'\<rparr>, s')))"

definition deleteStudent :: "('s, 'k, 'e, 'b) orm \<Rightarrow> 'k \<Rightarrow> 's \<Rightarrow> 'e response \<times> 's" where
  "deleteStudent db_Student ident s =
     (case findByPk db_Student ident [] s of
        Inl e \<Rightarrow> (\<lparr>status = 500, body = Error e\<rparr>, s)
      | Inr None \<Rightarrow> (\<lparr>status = 404, body = Message ''Not found''\<rparr>, s)
      | Inr (Some student) \<Rightarrow>
          (case destroy db_Student student s of
             (Inl e, s') \<Rightarrow> (\<lparr>status = 500, body = Error e\<rparr>, s')
           | (Inr _, s') \<Rightarrow> (\<lparr>status = 200, body = Message ''Deleted''\<rparr>, s')))"

subsection \<open>teacher.controller.js\<close>


definition getTeacherById :: "('s, 'k, 'e, 'b) orm \<Rightarrow> 'k \<Rightarrow> 's \<Rightarrow> 'e response" where
  "getTeacherById db_Teacher ident s =
     (case findByPk db_Teacher ident [Course] s of
        Inl e \<Rightarrow> \<lparr>status = 500, body = Error e\<rparr>
      | Inr None \<Rightarrow> \<lparr>status = 404, body = Message ''Not found''\<rparr>
      | Inr (Some teacher) \<Rightarrow> \<lparr>status = 200, body = Entity teacher\<rparr>)"

definition updateTeacher ::
  "('s, 'k, 'e, 'b) orm \<Rightarrow> 'k \<Rightarrow> 'b \<Rightarrow> 's \<Rightarrow> 'e response \<times> 's" where
  "updateTeacher db_Teacher ident req_body s =
     (case findByPk db_Teacher ident [] s of
        Inl e \<Rightarrow> (\<lparr>status = 500, body = Error e\<rparr>, s)
      | Inr None \<Rightarrow> (\<lparr>status = 404, body = Message ''Not found''\<rparr>, s)
      | Inr (Some teacher) \<Rightarrow>
          (case update db_Teacher teacher req_body s of
             (Inl e, s') \<Rightarrow> (\<lparr>status = 500, body = Error e\<rparr>, s')
           | (Inr teacher', s') \<Rightarrow> (\<lparr>status = 200, body = Entity teacher'\<rparr>, s')))"

definition deleteTeacher :: "('s, 'k, 'e, 'b) orm \<Rightarrow> 'k \<Rightarrow> 's \<Rightarrow> 'e response \<times> 's" where
  "deleteTeacher db_Teacher ident s =
     (case findByPk db_Teacher ident [] s of
        Inl e \<Rightarrow> (\<lparr>status = 500, body = Error e\<rparr>, s)
      | Inr None \<Rightarrow> (\<lparr>status = 404, body = Message ''Not found''\<rparr>, s)
      | Inr (Some teacher) \<Rightarrow>
          (case destroy db_Teacher teacher s of
             (Inl e, s') \<Rightarrow> (\<lparr>status = 500, body = Error e\<rparr>, s')
           | (Inr _, s') \<Rightarrow> (\<lparr>status = 200, body = Message ''Deleted''\<rparr>, s')))"

subsection \<open>The persistence layer\<close>

text \<open>
  Modelled from the spec: the models \<open>db.Student\<close> and \<open>db.Teacher\<close> (models/index.js and
  the ORM behind it) are not among the sources.  The spec gives every entity a unique
  identifier and a creation timestamp, orders listings by that timestamp, counts the whole
  resource, looks entities up by identifier, merges the body's fields on update and removes
  the entity on delete.  A table is the list of its rows; \<open>fault\<close> is the message every call
  rejects with while the database fails.  The rows of included relations are not modelled.
  The spec fixes a listing only for a limit and an offset that are not negative; this model
  rejects any other call.
\<close>

text \<open>
  Modelled from the spec: an entity, with its unique identifier, its creation timestamp
  and its other attributes by name.
\<close>

record ('k, 'v) entity =
  ident :: 'k
  createdAt :: nat
  attrs :: "string \<rightharpoonup> 'v"

text \<open>Modelled from the spec: the stored entities of one resource.\<close>

record ('k, 'v) table =
  rows :: "('k, 'v) entity list"
  fault :: "string option"

text \<open>
  Modelled from the spec: the ordering key is the creation timestamp, ascending or
  descending.  The order of rows of equal timestamp is not fixed by the spec; the model
  takes that of a stable sort, reversed for \<open>DESC\<close>.
\<close>

definition ordered :: "(string \<times> direction) list \<Rightarrow> ('k, 'v) entity list \<Rightarrow> ('k, 'v) entity list" where
  "ordered ord rs =
     (case ord of
        [(key, d)] \<Rightarrow>
          (if key = ''createdAt'' then
             (case d of ASC \<Rightarrow> sort_key createdAt rs | DESC \<Rightarrow> rev (sort_key createdAt rs))
           else rs)
      | _ \<Rightarrow> rs)"

text \<open>Modelled from the spec: \<open>count\<close>, the full count of the resource.\<close>

definition mem_count :: "('k, 'v) table \<Rightarrow> string + nat" where
  "mem_count t = (case fault t of Some e \<Rightarrow> Inl e | None \<Rightarrow> Inr (length (rows t)))"

text \<open>
  Modelled from the spec: \<open>findAll\<close>, the rows in order, without the first \<open>offset\<close> ones
  and at most \<open>limit\<close> of them.
\<close>

definition mem_findAll :: "findOptions \<Rightarrow> ('k, 'v) table \<Rightarrow> string + ('k, 'v) entity list" where
  "mem_findAll opts t =
     (case fault t of
        Some e \<Rightarrow> Inl e
      | None \<Rightarrow>
          (case (opt_limit opts, opt_offset opts) of
             (Integer l, Integer off) \<Rightarrow>
               (if 0 \<le> l \<and> 0 \<le> off
                then Inr (take (nat l) (drop (nat off) (ordered (opt_order opts) (rows t))))
                else Inl ''LIMIT and OFFSET must not be negative'')
           | _ \<Rightarrow> Inl ''LIMIT or OFFSET out of range''))"

text \<open>Modelled from the spec: \<open>findByPk\<close>, the entity with the identifier, if there is one.\<close>

definition mem_findByPk ::
  "'k \<Rightarrow> entity_model list \<Rightarrow> ('k, 'v) table \<Rightarrow> string + ('k, 'v) entity option" where
  "mem_findByPk k incl t =
     (case fault t of Some e \<Rightarrow> Inl e | None \<Rightarrow> Inr (find (\<lambda>r. ident r = k) (rows t)))"

text \<open>
  Modelled from the spec: \<open>update\<close> merges the fields of the body into the entity and
  persists it.
\<close>

definition mem_update ::
  "('k, 'v) entity \<Rightarrow> (string \<rightharpoonup> 'v) \<Rightarrow> ('k, 'v) table
     \<Rightarrow> (string + ('k, 'v) entity) \<times> ('k, 'v) table" where
  "mem_update e b t =
     (case fault t of
        Some m \<Rightarrow> (Inl m, t)
      | None \<Rightarrow>
          (let e' = e\<lparr>attrs := attrs e ++ b\<rparr>
           in (Inr e', t\<lparr>rows := map (\<lambda>r. if ident r = ident e then e' else r) (rows t)\<rparr>)))"

text \<open>Modelled from the spec: \<open>destroy\<close> removes the entity.\<close>

definition mem_destroy ::
  "('k, 'v) entity \<Rightarrow> ('k, 'v) table \<Rightarrow> (string + unit) \<times> ('k, 'v) table" where
  "mem_destroy e t =
     (case fault t of
        Some m \<Rightarrow> (Inl m, t)
      | None \<Rightarrow> (Inr (), t\<lparr>rows := filter (\<lambda>r. ident r \<noteq> ident e) (rows t)\<rparr>))"

text \<open>Modelled from the spec: the handle made of the five calls above.\<close>

definition mem_orm ::
  "(('k, 'v) table, 'k, ('k, 'v) entity, string \<rightharpoonup> 'v) orm" where
  "mem_orm =
     \<lparr>count = mem_count, findAll = mem_findAll, findByPk = mem_findByPk,
      update = mem_update, destroy = mem_destroy\<rparr>"

section \<open>auth.controller.js\<close>

record user =
  user_id :: nat
  user_name :: string
  user_email :: string
  user_password :: string

record jwt_payload =
  userId :: nat
  email :: string

text \<open>
  What \<open>login\<close> calls outside this repository's sources is a parameter: the lookup
  \<open>db.User.findOne({ where: { email } })\<close> over a database state \<open>'s\<close>,
  \<open>bcrypt.compare(password, hash)\<close>, \<open>jwt.sign(payload, secret, { expiresIn })\<close> returning a
  token of type \<open>'t\<close>, and the two variables of \<open>process.env\<close>.  A call returns its value or
  the message of its exception.  \<open>'v\<close> is the type of the values of the JSON body, which is
  taken to be an object; \<open>undefined\<close>, for a property it does not have, is a value of \<open>'v\<close>.
\<close>

record ('s, 'v, 't) auth_deps =
  findOne :: "'v \<Rightarrow> 's \<Rightarrow> string + user option"
  compare :: "'v \<Rightarrow> string \<Rightarrow> string + bool"
  sign :: "jwt_payload \<Rightarrow> string option \<Rightarrow> string \<Rightarrow> string + 't"
  JWT_SECRET :: "string option"
  JWT_EXPIRES_IN :: "string option"

record 'v credentials =
  body_email :: 'v
  body_password :: 'v

datatype 't auth_body = Token 't | AuthError string

record 't auth_response =
  auth_status :: nat
  auth_body :: "'t auth_body"

text \<open>\<open>process.env.JWT_EXPIRES_IN || '1h'\<close>: an unset or empty variable is falsy.\<close>

definition expiresIn :: "('s, 'v, 't) auth_deps \<Rightarrow> string" where
  "expiresIn D =
     (case JWT_EXPIRES_IN D of None \<Rightarrow> ''1h'' | Some e \<Rightarrow> if e = [] then ''1h'' else e)"

definition login :: "('s, 'v, 't) auth_deps \<Rightarrow> 'v credentials \<Rightarrow> 's \<Rightarrow> 't auth_response" where
  "login D req_body s =
     (case findOne D (body_email req_body) s of
        Inl e \<Rightarrow> \<lparr>auth_status = 500, auth_body = AuthError e\<rparr>
      | Inr None \<Rightarrow> \<lparr>auth_status = 401, auth_body = AuthError ''Invalid email or password''\<rparr>
      | Inr (Some u) \<Rightarrow>
          (case compare D (body_password req_body) (user_password u) of
             Inl e \<Rightarrow> \<lparr>auth_status = 500, auth_body = AuthError e\<rparr>
           | Inr False \<Rightarrow>
               \<lparr>auth_status = 401, auth_body = AuthError ''Invalid email or password''\<rparr>
           | Inr True \<Rightarrow>
               (case sign D \<lparr>userId = user_id u, email = user_email u\<rparr> (JWT_SECRET D)
                       (expiresIn D) of
                  Inl e \<Rightarrow> \<lparr>auth_status = 500, auth_body = AuthError e\<rparr>
                | Inr token \<Rightarrow> \<lparr>auth_status = 200, auth_body = Token token\<rparr>)))"

section \<open>Example data\<close>

text \<open>A request with no query parameter, a table of three rows, and a user table.\<close>

definition no_query :: query where
  "no_query = \<lparr>q_page = None, q_limit = None, q_sort = None, q_populate = None\<rparr>"

definition example_table :: "(nat, string) table" where
  "example_table =
     \<lparr>rows = [\<lparr>ident = 1, createdAt = 10, attrs = Map.empty\<rparr>,
              \<lparr>ident = 2, createdAt = 30, attrs = Map.empty\<rparr>,
              \<lparr>ident = 3, createdAt = 20, attrs = Map.empty\<rparr>],
      fault = None\<rparr>"

definition example_users :: "user list" where
  "example_users =
     [\<lparr>user_id = 7, user_name = ''Ada'', user_email = ''ada@school.test'',
       user_password = ''hash of pw''\<rparr>]"

text \<open>
  Stand-ins for the three outside calls of \<open>login\<close>: a lookup in a list of users, a
  comparison that accepts the hash \<open>hash of p\<close> for the password \<open>p\<close>, and a signature that
  records its three arguments and rejects a missing secret.
\<close>

definition example_deps ::
  "(user list, string, jwt_payload \<times> string \<times> string) auth_deps" where
  "example_deps =
     \<lparr>findOne = (\<lambda>e us. Inr (find (\<lambda>u. user_email u = e) us)),
      compare = (\<lambda>p h. Inr (h = ''hash of '' @ p)),
      sign = (\<lambda>payload secret ex.
                case secret of
                  None \<Rightarrow> Inl ''secretOrPrivateKey must have a value''
                | Some k \<Rightarrow> Inr (payload, k, ex)),
      JWT_SECRET = Some ''s3cret'',
      JWT_EXPIRES_IN = None\<rparr>"

section \<open>Properties\<close>

subsection \<open>Auxiliary facts\<close>




lemma student_rels_course:
  "\<exists>ys. student_rels rels (Some (Inc Course (Some xs))) = Inr (Some (Inc Course (Some ys)))"
proof (induction rels arbitrary: xs)
  case Nil
  show ?case by simp
next
  case (Cons rel rels)
  have "\<exists>zs. student_rel rel (Some (Inc Course (Some xs))) = Inr (Some (Inc Course (Some zs)))"
    by (simp add: student_rel_def reset_include_def push_include_def)
  then obtain zs where
    "student_rel rel (Some (Inc Course (Some xs))) = Inr (Some (Inc Course (Some zs)))" ..
  with Cons.IH [of zs] show ?case by simp
qed

lemma student_rels_unrecognised:
  "''CourseId'' \<notin> set rels \<Longrightarrow> ''TeacherId'' \<notin> set rels \<Longrightarrow> student_rels rels vr = Inr vr"
  by (induction rels) (auto simp: student_rel_def)

lemma split_comma_not_Nil: "split_comma s \<noteq> []"
  by (induction s) (auto split: list.splits)

lemma split_comma_append:
  "split_comma (s @ CHR '','' # t) = split_comma s @ split_comma t"
  by (induction s) (auto split: list.splits simp: split_comma_not_Nil)

lemma split_comma_no_comma: "CHR '','' \<notin> set t \<Longrightarrow> split_comma t = [t]"
  by (induction t) auto

lemma teacher_include_str:
  "q_populate q = Some (QStr s) \<Longrightarrow>
   teacher_include q =
     Inr (if ''StudentId'' \<in> set (relations s) then [Inc Course (Some [Inc Student None])]
          else if ''CourseId'' \<in> set (relations s) then [Inc Course (Some [])]
          else [])"
proof (cases "s = []")
  case True
  assume "q_populate q = Some (QStr s)"
  with True show ?thesis
    by (simp add: teacher_include_def truthy_def relations_def trim_def)
next
  case False
  assume "q_populate q = Some (QStr s)"
  with False show ?thesis
    by (simp add: teacher_include_def truthy_def Let_def push_include_def object_values_def)
qed




subsection \<open>Pagination\<close>






subsection \<open>Sorting\<close>

text \<open>
  C5.  The sort direction of a list request is descending exactly when the raw \<open>sort\<close>
  parameter is the string \<open>desc\<close>, compared case-sensitively; for every other value, an
  absent one too, it is ascending.  The order of the fetch is always the single key
  \<open>createdAt\<close> with that direction.
\<close>

theorem sort_direction:
  "(sortOrder q = DESC \<longleftrightarrow> q_sort q = Some (QStr ''desc'')) \<and>
   (sortOrder q = ASC \<longleftrightarrow> q_sort q \<noteq> Some (QStr ''desc'')) \<and>
   (teacher_options q = Inr topts \<longrightarrow> opt_order topts = [(''createdAt'', sortOrder q)]) \<and>
   (student_options q = Inr sopts \<longrightarrow> opt_order sopts = [(''createdAt'', sortOrder q)])"
  by (auto simp: sortOrder_def teacher_options_def student_options_def mk_options_def
           split: sum.splits)

theorem sort_direction_witness:
  "teacher_options (no_query\<lparr>q_sort := Some (QStr ''desc'')\<rparr>) =
     Inr (mk_options (no_query\<lparr>q_sort := Some (QStr ''desc'')\<rparr>) []) \<and>
   student_options (no_query\<lparr>q_sort := Some (QStr ''desc'')\<rparr>) =
     Inr (mk_options (no_query\<lparr>q_sort := Some (QStr ''desc'')\<rparr>) []) \<and>
   opt_order (mk_options (no_query\<lparr>q_sort := Some (QStr ''desc'')\<rparr>) []) =
     [(''createdAt'', DESC)] \<and>
   sortOrder (no_query\<lparr>q_sort := Some (QStr ''desc'')\<rparr>) = DESC \<and>
   sortOrder (no_query\<lparr>q_sort := Some (QStr ''DESC'')\<rparr>) = ASC \<and>
   sortOrder no_query = ASC"
proof -
  let ?q = "no_query\<lparr>q_sort := Some (QStr ''desc'')\<rparr>"
  have t: "teacher_options ?q = Inr (mk_options ?q [])"
    by (simp add: teacher_options_def teacher_include_def truthy_def no_query_def)
  have s: "student_options ?q = Inr (mk_options ?q [])"
    by (simp add: student_options_def student_include_def truthy_def no_query_def)
  have d: "q_sort ?q = Some (QStr ''desc'')"
    and u: "q_sort (no_query\<lparr>q_sort := Some (QStr ''DESC'')\<rparr>) \<noteq> Some (QStr ''desc'')"
    and n: "q_sort no_query \<noteq> Some (QStr ''desc'')"
    by (simp_all add: no_query_def)
  from sort_direction [of ?q "mk_options ?q []" "mk_options ?q []"] t s d
    sort_direction [of "no_query\<lparr>q_sort := Some (QStr ''DESC'')\<rparr>"] u
    sort_direction [of no_query] n
  show ?thesis by simp
qed

subsection \<open>The Course include of the list operations\<close>


lemma student_include_cases:
  "student_include q =
     (case q_populate q of
        None \<Rightarrow> Inr []
      | Some (QStr s) \<Rightarrow>
          if s = [] then Inr []
          else (case student_rels (relations s) (Some (Inc Course (Some []))) of
                  Inl e \<Rightarrow> Inl e | Inr vr \<Rightarrow> Inr (object_values vr))
      | Some _ \<Rightarrow> Inl ''populate.split is not a function'')"
  by (simp add: student_include_def truthy_def split: option.splits qval.splits)

lemma student_include_nonempty:
  assumes "q_populate q = Some (QStr s)" and "s \<noteq> []"
  shows "\<exists>nested. student_include q = Inr [Inc Course (Some nested)]"
proof -
  from student_rels_course [of "relations s" "[]"] obtain ys where
    "student_rels (relations s) (Some (Inc Course (Some []))) = Inr (Some (Inc Course (Some ys)))" ..
  with assms show ?thesis by (simp add: student_include_cases object_values_def)
qed






text \<open>
  C9.  For the Student list operation a non-empty \<open>populate\<close> string gives an include list
  of exactly one Course node, also when no token of it is recognised (the node then has no
  nested include); an absent or empty \<open>populate\<close> gives the empty include list; and whenever
  the include list is built, it has the Course node exactly when \<open>populate\<close> is a non-empty
  string.
\<close>

theorem student_course_iff_populate:
  "(q_populate q = Some (QStr s) \<and> s \<noteq> [] \<longrightarrow>
      (\<exists>nested. student_include q = Inr [Inc Course (Some nested)])) \<and>
   (q_populate q = Some (QStr s) \<and> s \<noteq> [] \<and>
    ''CourseId'' \<notin> set (relations s) \<and> ''TeacherId'' \<notin> set (relations s) \<longrightarrow>
      student_include q = Inr [Inc Course (Some [])]) \<and>
   (q_populate q = None \<or> q_populate q = Some (QStr []) \<longrightarrow> student_include q = Inr []) \<and>
   (student_include q = Inr incl \<longrightarrow>
      (Course \<in> inc_model ` set incl \<longleftrightarrow> (\<exists>s. q_populate q = Some (QStr s) \<and> s \<noteq> [])))"
proof (intro conjI impI)
  assume "q_populate q = Some (QStr s) \<and> s \<noteq> []"
  then show "\<exists>nested. student_include q = Inr [Inc Course (Some nested)]"
    using student_include_nonempty [of q s] by simp
next
  assume "q_populate q = Some (QStr s) \<and> s \<noteq> [] \<and>
    ''CourseId'' \<notin> set (relations s) \<and> ''TeacherId'' \<notin> set (relations s)"
  then show "student_include q = Inr [Inc Course (Some [])]"
    by (simp add: student_include_cases student_rels_unrecognised object_values_def)
next
  assume "q_populate q = None \<or> q_populate q = Some (QStr [])"
  then show "student_include q = Inr []"
    by (auto simp: student_include_cases)
next
  assume a: "student_include q = Inr incl"
  show "Course \<in> inc_model ` set incl \<longleftrightarrow> (\<exists>s. q_populate q = Some (QStr s) \<and> s \<noteq> [])"
  proof (cases "\<exists>s. q_populate q = Some (QStr s) \<and> s \<noteq> []")
    case True
    then obtain s' where s: "q_populate q = Some (QStr s')" "s' \<noteq> []" by blast
    from student_include_nonempty [OF s] a True show ?thesis by auto
  next
    case False
    with a have "incl = []"
      by (auto simp: student_include_cases split: option.splits qval.splits if_splits)
    with False show ?thesis by simp
  qed
qed

theorem student_course_iff_populate_witness:
  "q_populate (no_query\<lparr>q_populate := Some (QStr ''foo, bar'')\<rparr>) = Some (QStr ''foo, bar'') \<and>
   ''foo, bar'' \<noteq> [] \<and>
   ''CourseId'' \<notin> set (relations ''foo, bar'') \<and> ''TeacherId'' \<notin> set (relations ''foo, bar'') \<and>
   student_include (no_query\<lparr>q_populate := Some (QStr ''foo, bar'')\<rparr>) = Inr [Inc Course (Some [])] \<and>
   Course \<in> inc_model ` set [Inc Course (Some [])] \<and>
   student_include no_query = Inr []"
proof -
  let ?q = "no_query\<lparr>q_populate := Some (QStr ''foo, bar'')\<rparr>"
  have p: "q_populate ?q = Some (QStr ''foo, bar'')" and n: "q_populate no_query = None"
    by (simp_all add: no_query_def)
  have r: "relations ''foo, bar'' = [''foo'', ''bar'']"
    by (simp add: relations_def trim_def isWhiteSpace_def)
  from student_course_iff_populate [of ?q "''foo, bar''" "[Inc Course (Some [])]"] p r
  have "student_include ?q = Inr [Inc Course (Some [])]" by simp
  moreover from student_course_iff_populate [of no_query] n
  have "student_include no_query = Inr []" by simp
  ultimately show ?thesis using p r by simp
qed

subsection \<open>The tokens of \<open>populate\<close>\<close>

lemma relations_append:
  "CHR '','' \<notin> set t \<Longrightarrow> relations (s @ CHR '','' # t) = relations s @ [trim t]"
  by (simp add: relations_def split_comma_append split_comma_no_comma)

lemma relations_prepend:
  "CHR '','' \<notin> set t \<Longrightarrow> relations (t @ CHR '','' # s) = trim t # relations s"
  by (simp add: relations_def split_comma_append split_comma_no_comma)

text \<open>
  C3.  For the Teacher list operation with a \<open>populate\<close> string: when its trimmed tokens
  contain \<open>CourseId\<close> the include list is one Course node; when they contain \<open>StudentId\<close>
  it is one Course node with Student nested under it, whether or not \<open>CourseId\<close> is among
  them; with neither token it is empty.  A further token that is neither of the two, put
  after or before the others, leaves the include list as it was.
\<close>

theorem teacher_populate_tokens:
  "q_populate q = Some (QStr s) \<longrightarrow>
     (''CourseId'' \<in> set (relations s) \<longrightarrow>
        (\<exists>nested. teacher_include q = Inr [Inc Course (Some nested)])) \<and>
     (''StudentId'' \<in> set (relations s) \<longrightarrow>
        teacher_include q = Inr [Inc Course (Some [Inc Student None])]) \<and>
     (''CourseId'' \<in> set (relations s) \<and> ''StudentId'' \<notin> set (relations s) \<longrightarrow>
        teacher_include q = Inr [Inc Course (Some [])]) \<and>
     (''CourseId'' \<notin> set (relations s) \<and> ''StudentId'' \<notin> set (relations s) \<longrightarrow>
        teacher_include q = Inr []) \<and>
     (CHR '','' \<notin> set t \<and> trim t \<noteq> ''CourseId'' \<and> trim t \<noteq> ''StudentId'' \<longrightarrow>
        teacher_include (q\<lparr>q_populate := Some (QStr (s @ CHR '','' # t))\<rparr>) = teacher_include q \<and>
        teacher_include (q\<lparr>q_populate := Some (QStr (t @ CHR '','' # s))\<rparr>) = teacher_include q)"
proof (intro impI)
  assume p: "q_populate q = Some (QStr s)"
  have a: "q_populate (q\<lparr>q_populate := Some (QStr (s @ CHR '','' # t))\<rparr>) =
             Some (QStr (s @ CHR '','' # t))"
    and b: "q_populate (q\<lparr>q_populate := Some (QStr (t @ CHR '','' # s))\<rparr>) =
             Some (QStr (t @ CHR '','' # s))" by simp_all
  have "CHR '','' \<notin> set t \<and> trim t \<noteq> ''CourseId'' \<and> trim t \<noteq> ''StudentId'' \<longrightarrow>
        teacher_include (q\<lparr>q_populate := Some (QStr (s @ CHR '','' # t))\<rparr>) = teacher_include q \<and>
        teacher_include (q\<lparr>q_populate := Some (QStr (t @ CHR '','' # s))\<rparr>) = teacher_include q"
    unfolding teacher_include_str [OF p] teacher_include_str [OF a] teacher_include_str [OF b]
    by (auto simp: relations_append relations_prepend)
  moreover have "(''CourseId'' \<in> set (relations s) \<longrightarrow>
        (\<exists>nested. teacher_include q = Inr [Inc Course (Some nested)])) \<and>
     (''StudentId'' \<in> set (relations s) \<longrightarrow>
        teacher_include q = Inr [Inc Course (Some [Inc Student None])]) \<and>
     (''CourseId'' \<in> set (relations s) \<and> ''StudentId'' \<notin> set (relations s) \<longrightarrow>
        teacher_include q = Inr [Inc Course (Some [])]) \<and>
     (''CourseId'' \<notin> set (relations s) \<and> ''StudentId'' \<notin> set (relations s) \<longrightarrow>
        teacher_include q = Inr [])"
    unfolding teacher_include_str [OF p] by simp
  ultimately show "(''CourseId'' \<in> set (relations s) \<longrightarrow>
        (\<exists>nested. teacher_include q = Inr [Inc Course (Some nested)])) \<and>
     (''StudentId'' \<in> set (relations s) \<longrightarrow>
        teacher_include q = Inr [Inc Course (Some [Inc Student None])]) \<and>
     (''CourseId'' \<in> set (relations s) \<and> ''StudentId'' \<notin> set (relations s) \<longrightarrow>
        teacher_include q = Inr [Inc Course (Some [])]) \<and>
     (''CourseId'' \<notin> set (relations s) \<and> ''StudentId'' \<notin> set (relations s) \<longrightarrow>
        teacher_include q = Inr []) \<and>
     (CHR '','' \<notin> set t \<and> trim t \<noteq> ''CourseId'' \<and> trim t \<noteq> ''StudentId'' \<longrightarrow>
        teacher_include (q\<lparr>q_populate := Some (QStr (s @ CHR '','' # t))\<rparr>) = teacher_include q \<and>
        teacher_include (q\<lparr>q_populate := Some (QStr (t @ CHR '','' # s))\<rparr>) = teacher_include q)"
    by blast
qed

theorem teacher_populate_tokens_witness:
  "q_populate (no_query\<lparr>q_populate := Some (QStr '' StudentId ,name'')\<rparr>) =
     Some (QStr '' StudentId ,name'') \<and>
   ''StudentId'' \<in> set (relations '' StudentId ,name'') \<and>
   ''CourseId'' \<notin> set (relations '' StudentId ,name'') \<and>
   CHR '','' \<notin> set '' age'' \<and> trim '' age'' \<noteq> ''CourseId'' \<and> trim '' age'' \<noteq> ''StudentId'' \<and>
   teacher_include (no_query\<lparr>q_populate := Some (QStr '' StudentId ,name'')\<rparr>) =
     Inr [Inc Course (Some [Inc Student None])] \<and>
   teacher_include (no_query\<lparr>q_populate := Some (QStr '' StudentId ,name, age'')\<rparr>) =
     Inr [Inc Course (Some [Inc Student None])] \<and>
   q_populate (no_query\<lparr>q_populate := Some (QStr ''CourseId'')\<rparr>) = Some (QStr ''CourseId'') \<and>
   ''CourseId'' \<in> set (relations ''CourseId'') \<and> ''StudentId'' \<notin> set (relations ''CourseId'') \<and>
   teacher_include (no_query\<lparr>q_populate := Some (QStr ''CourseId'')\<rparr>) = Inr [Inc Course (Some [])]"
proof -
  let ?q = "no_query\<lparr>q_populate := Some (QStr '' StudentId ,name'')\<rparr>"
  let ?c = "no_query\<lparr>q_populate := Some (QStr ''CourseId'')\<rparr>"
  have p: "q_populate ?q = Some (QStr '' StudentId ,name'')"
    and pc: "q_populate ?c = Some (QStr ''CourseId'')"
    by (simp_all add: no_query_def)
  have r: "relations '' StudentId ,name'' = [''StudentId'', ''name'']"
    and rc: "relations ''CourseId'' = [''CourseId'']"
    and t: "trim '' age'' = ''age''"
    by (simp_all add: relations_def trim_def isWhiteSpace_def)
  have u: "?q\<lparr>q_populate := Some (QStr ('' StudentId ,name'' @ CHR '','' # '' age''))\<rparr> =
           no_query\<lparr>q_populate := Some (QStr '' StudentId ,name, age'')\<rparr>"
    by (simp add: no_query_def)
  from teacher_populate_tokens [of ?q "'' StudentId ,name''" "'' age''"] p r t
  have 1: "teacher_include ?q = Inr [Inc Course (Some [Inc Student None])]"
    and 2: "teacher_include (?q\<lparr>q_populate := Some (QStr ('' StudentId ,name'' @ CHR '','' # '' age''))\<rparr>) =
       teacher_include ?q"
    by simp_all
  from teacher_populate_tokens [of ?c "''CourseId''"] pc rc
  have 3: "teacher_include ?c = Inr [Inc Course (Some [])]" by simp
  from 1 2 3 p pc r rc t show ?thesis unfolding u by simp
qed

text \<open>
  The include list of the Teacher list operation depends only on the set of the trimmed
  tokens, so neither their order nor a repetition changes it.
\<close>

lemma teacher_include_token_set:
  assumes "set (relations s) = set (relations s')"
  shows "teacher_include (q\<lparr>q_populate := Some (QStr s)\<rparr>) =
         teacher_include (q\<lparr>q_populate := Some (QStr s')\<rparr>)"
proof -
  have "q_populate (q\<lparr>q_populate := Some (QStr s)\<rparr>) = Some (QStr s)"
    and "q_populate (q\<lparr>q_populate := Some (QStr s')\<rparr>) = Some (QStr s')" by simp_all
  then show ?thesis using assms by (simp add: teacher_include_str)
qed

text \<open>
  C2 asks that the include tree be the same for every order of the tokens of \<open>populate\<close>
  and for a repeated token.  The Student list operation does otherwise: \<open>CourseId\<close> after
  \<open>TeacherId\<close> resets the nested include that \<open>TeacherId\<close> has pushed, so the two orders of
  the same tokens give different trees; and a repeated \<open>TeacherId\<close> pushes the nested
  Teacher node twice.
\<close>

theorem student_populate_order_dependent:
  "student_include (no_query\<lparr>q_populate := Some (QStr ''CourseId,TeacherId'')\<rparr>) =
     Inr [Inc Course (Some [Inc Teacher None])] \<and>
   student_include (no_query\<lparr>q_populate := Some (QStr ''TeacherId,CourseId'')\<rparr>) =
     Inr [Inc Course (Some [])] \<and>
   student_include (no_query\<lparr>q_populate := Some (QStr ''TeacherId'')\<rparr>) =
     Inr [Inc Course (Some [Inc Teacher None])] \<and>
   student_include (no_query\<lparr>q_populate := Some (QStr ''TeacherId,TeacherId'')\<rparr>) =
     Inr [Inc Course (Some [Inc Teacher None, Inc Teacher None])]"
  by (simp add: student_include_def truthy_def no_query_def relations_def trim_def
        isWhiteSpace_def student_rel_def reset_include_def push_include_def object_values_def)

subsection \<open>Lookup by identifier\<close>

text \<open>
  For any persistence handle: when \<open>findByPk\<close> returns no entity, the three operations
  answer 404 and make no further call, so the state is as it was; when it returns one,
  delete calls \<open>destroy\<close> on it and answers with the confirmation.
\<close>

lemma student_not_found:
  "findByPk M k [Course] s = Inr None \<Longrightarrow>
     getStudentById M k s = \<lparr>status = 404, body = Message ''Not found''\<rparr>"
  "findByPk M k [] s = Inr None \<Longrightarrow>
     updateStudent M k b s = (\<lparr>status = 404, body = Message ''Not found''\<rparr>, s) \<and>
     deleteStudent M k s = (\<lparr>status = 404, body = Message ''Not found''\<rparr>, s)"
  by (simp_all add: getStudentById_def updateStudent_def deleteStudent_def)

lemma teacher_not_found:
  "findByPk M k [Course] s = Inr None \<Longrightarrow>
     getTeacherById M k s = \<lparr>status = 404, body = Message ''Not found''\<rparr>"
  "findByPk M k [] s = Inr None \<Longrightarrow>
     updateTeacher M k b s = (\<lparr>status = 404, body = Message ''Not found''\<rparr>, s) \<and>
     deleteTeacher M k s = (\<lparr>status = 404, body = Message ''Not found''\<rparr>, s)"
  by (simp_all add: getTeacherById_def updateTeacher_def deleteTeacher_def)

lemma delete_found:
  "findByPk M k [] s = Inr (Some e) \<Longrightarrow> destroy M e s = (Inr (), s') \<Longrightarrow>
     deleteStudent M k s = (\<lparr>status = 200, body = Message ''Deleted''\<rparr>, s') \<and>
     deleteTeacher M k s = (\<lparr>status = 200, body = Message ''Deleted''\<rparr>, s')"
  by (simp add: deleteStudent_def deleteTeacher_def)

lemma mem_findByPk_absent:
  "fault t = None \<Longrightarrow> \<forall>r\<in>set (rows t). ident r \<noteq> k \<Longrightarrow>
   findByPk mem_orm k incl t = Inr None"
  by (simp add: mem_orm_def mem_findByPk_def find_None_iff)

lemma mem_findByPk_present:
  assumes "fault t = None" and "\<exists>r\<in>set (rows t). ident r = k"
  shows "\<exists>e. findByPk mem_orm k incl t = Inr (Some e) \<and> ident e = k \<and> e \<in> set (rows t)"
proof -
  from assms(2) have "find (\<lambda>r. ident r = k) (rows t) \<noteq> None"
    by (auto simp: find_None_iff)
  then obtain e where e: "find (\<lambda>r. ident r = k) (rows t) = Some e" by blast
  then have "ident e = k \<and> e \<in> set (rows t)"
    by (auto simp: find_Some_iff)
  with e assms(1) show ?thesis by (simp add: mem_orm_def mem_findByPk_def)
qed

lemma mem_destroy_ok:
  "fault t = None \<Longrightarrow>
   destroy mem_orm e t = (Inr (), t\<lparr>rows := filter (\<lambda>r. ident r \<noteq> ident e) (rows t)\<rparr>)"
  by (simp add: mem_orm_def mem_destroy_def)

text \<open>
  C7.  Over a working persistence layer: when no entity has the identifier named by the
  request, getById, update and delete of Student and of Teacher answer 404 with the
  message \<open>Not found\<close>, and update and delete leave the stored entities as they were.  When
  an entity has the identifier, delete answers with the message \<open>Deleted\<close>, the rows with
  that identifier are removed and all others kept, and a getById that follows answers 404.
\<close>

theorem not_found_and_delete:
  assumes "fault t = None"
  shows
  "((\<forall>r\<in>set (rows t). ident r \<noteq> k) \<longrightarrow>
      getStudentById mem_orm k t = \<lparr>status = 404, body = Message ''Not found''\<rparr> \<and>
      updateStudent mem_orm k b t = (\<lparr>status = 404, body = Message ''Not found''\<rparr>, t) \<and>
      deleteStudent mem_orm k t = (\<lparr>status = 404, body = Message ''Not found''\<rparr>, t) \<and>
      getTeacherById mem_orm k t = \<lparr>status = 404, body = Message ''Not found''\<rparr> \<and>
      updateTeacher mem_orm k b t = (\<lparr>status = 404, body = Message ''Not found''\<rparr>, t) \<and>
      deleteTeacher mem_orm k t = (\<lparr>status = 404, body = Message ''Not found''\<rparr>, t)) \<and>
   ((\<exists>r\<in>set (rows t). ident r = k) \<longrightarrow>
      deleteStudent mem_orm k t =
        (\<lparr>status = 200, body = Message ''Deleted''\<rparr>,
         t\<lparr>rows := filter (\<lambda>r. ident r \<noteq> k) (rows t)\<rparr>) \<and>
      deleteTeacher mem_orm k t =
        (\<lparr>status = 200, body = Message ''Deleted''\<rparr>,
         t\<lparr>rows := filter (\<lambda>r. ident r \<noteq> k) (rows t)\<rparr>) \<and>
      getStudentById mem_orm k (snd (deleteStudent mem_orm k t)) =
        \<lparr>status = 404, body = Message ''Not found''\<rparr> \<and>
      getTeacherById mem_orm k (snd (deleteTeacher mem_orm k t)) =
        \<lparr>status = 404, body = Message ''Not found''\<rparr>)"
proof (intro conjI impI)
  assume a: "\<forall>r\<in>set (rows t). ident r \<noteq> k"
  note nf = mem_findByPk_absent [OF assms a]
  show "getStudentById mem_orm k t = \<lparr>status = 404, body = Message ''Not found''\<rparr>"
    by (rule student_not_found(1) [OF nf])
  show "updateStudent mem_orm k b t = (\<lparr>status = 404, body = Message ''Not found''\<rparr>, t)"
    using student_not_found(2) [OF nf] by simp
  show "deleteStudent mem_orm k t = (\<lparr>status = 404, body = Message ''Not found''\<rparr>, t)"
    using student_not_found(2) [OF nf] by simp
  show "getTeacherById mem_orm k t = \<lparr>status = 404, body = Message ''Not found''\<rparr>"
    by (rule teacher_not_found(1) [OF nf])
  show "updateTeacher mem_orm k b t = (\<lparr>status = 404, body = Message ''Not found''\<rparr>, t)"
    using teacher_not_found(2) [OF nf] by simp
  show "deleteTeacher mem_orm k t = (\<lparr>status = 404, body = Message ''Not found''\<rparr>, t)"
    using teacher_not_found(2) [OF nf] by simp
next
  assume a: "\<exists>r\<in>set (rows t). ident r = k"
  from mem_findByPk_present [OF assms a, of "[]"] obtain e where
    e: "findByPk mem_orm k [] t = Inr (Some e)" "ident e = k" by blast
  let ?t' = "t\<lparr>rows := filter (\<lambda>r. ident r \<noteq> k) (rows t)\<rparr>"
  from e(2) mem_destroy_ok [OF assms, of e] have "destroy mem_orm e t = (Inr (), ?t')" by simp
  note del = delete_found [OF e(1) this]
  show s: "deleteStudent mem_orm k t = (\<lparr>status = 200, body = Message ''Deleted''\<rparr>, ?t')"
    using del by simp
  show d: "deleteTeacher mem_orm k t = (\<lparr>status = 200, body = Message ''Deleted''\<rparr>, ?t')"
    using del by simp
  have gone: "findByPk mem_orm k [Course] ?t' = Inr None"
    using assms by (intro mem_findByPk_absent) simp_all
  show "getStudentById mem_orm k (snd (deleteStudent mem_orm k t)) =
        \<lparr>status = 404, body = Message ''Not found''\<rparr>"
    unfolding s using student_not_found(1) [OF gone] by simp
  show "getTeacherById mem_orm k (snd (deleteTeacher mem_orm k t)) =
        \<lparr>status = 404, body = Message ''Not found''\<rparr>"
    unfolding d using teacher_not_found(1) [OF gone] by simp
qed

theorem not_found_and_delete_witness:
  "fault example_table = None \<and>
   7 \<notin> ident ` set (rows example_table) \<and>
   2 \<in> ident ` set (rows example_table) \<and>
   getStudentById mem_orm 7 example_table = \<lparr>status = 404, body = Message ''Not found''\<rparr> \<and>
   updateTeacher mem_orm 7 [''name'' \<mapsto> ''Eve''] example_table =
     (\<lparr>status = 404, body = Message ''Not found''\<rparr>, example_table) \<and>
   deleteStudent mem_orm 2 example_table =
     (\<lparr>status = 200, body = Message ''Deleted''\<rparr>,
      \<lparr>rows = [\<lparr>ident = 1, createdAt = 10, attrs = Map.empty\<rparr>,
               \<lparr>ident = 3, createdAt = 20, attrs = Map.empty\<rparr>],
       fault = None\<rparr>)"
proof -
  have f: "fault example_table = None"
    and a: "\<forall>r\<in>set (rows example_table). ident r \<noteq> 7"
    and p: "\<exists>r\<in>set (rows example_table). ident r = 2"
    by (simp_all add: example_table_def)
  have r: "example_table\<lparr>rows := filter (\<lambda>r. ident r \<noteq> 2) (rows example_table)\<rparr> =
      \<lparr>rows = [\<lparr>ident = 1, createdAt = 10, attrs = Map.empty\<rparr>,
               \<lparr>ident = 3, createdAt = 20, attrs = Map.empty\<rparr>],
       fault = None\<rparr>"
    by (simp add: example_table_def)
  from not_found_and_delete [OF f, of 7 "[''name'' \<mapsto> ''Eve'']"] a
  have 1: "getStudentById mem_orm 7 example_table = \<lparr>status = 404, body = Message ''Not found''\<rparr>"
    and 2: "updateTeacher mem_orm 7 [''name'' \<mapsto> ''Eve''] example_table =
     (\<lparr>status = 404, body = Message ''Not found''\<rparr>, example_table)"
    by blast+
  from not_found_and_delete [OF f, of 2] p
  have "deleteStudent mem_orm 2 example_table =
        (\<lparr>status = 200, body = Message ''Deleted''\<rparr>,
         example_table\<lparr>rows := filter (\<lambda>r. ident r \<noteq> 2) (rows example_table)\<rparr>)"
    by blast
  moreover have "7 \<notin> ident ` set (rows example_table)"
    and "2 \<in> ident ` set (rows example_table)"
    by (simp_all add: example_table_def)
  ultimately show ?thesis using 1 2 f unfolding r by simp
qed

subsection \<open>The list envelope\<close>






subsection \<open>Login\<close>

lemma login_cases:
  "login D b s =
     (case findOne D (body_email b) s of
        Inl e \<Rightarrow> \<lparr>auth_status = 500, auth_body = AuthError e\<rparr>
      | Inr None \<Rightarrow> \<lparr>auth_status = 401, auth_body = AuthError ''Invalid email or password''\<rparr>
      | Inr (Some u) \<Rightarrow>
          (case compare D (body_password b) (user_password u) of
             Inl e \<Rightarrow> \<lparr>auth_status = 500, auth_body = AuthError e\<rparr>
           | Inr ok \<Rightarrow>
               if ok then
                 (case sign D \<lparr>userId = user_id u, email = user_email u\<rparr> (JWT_SECRET D)
                         (expiresIn D) of
                    Inl e \<Rightarrow> \<lparr>auth_status = 500, auth_body = AuthError e\<rparr>
                  | Inr token \<Rightarrow> \<lparr>auth_status = 200, auth_body = Token token\<rparr>)
               else \<lparr>auth_status = 401, auth_body = AuthError ''Invalid email or password''\<rparr>))"
  by (simp add: login_def split: sum.splits option.splits bool.splits)

text \<open>
  C8.  \<open>login\<close> answers 401 exactly when the lookup by email returns no user, or returns a
  user and the comparison of the password with the stored hash returns false; the body is
  then \<open>Invalid email or password\<close>.  When the lookup returns a user and the comparison
  returns true, \<open>login\<close> signs a token in this request, over the user's id and email, with
  the configured secret and with the expiry \<open>JWT_EXPIRES_IN\<close>, or \<open>1h\<close> when that is not set,
  and answers 200 with the token the signature returns; it answers 200 in no other case.
\<close>

theorem login_unauthorized_or_token:
  "(auth_status (login D b s) = 401 \<longleftrightarrow>
      findOne D (body_email b) s = Inr None \<or>
      (\<exists>u. findOne D (body_email b) s = Inr (Some u) \<and>
           compare D (body_password b) (user_password u) = Inr False)) \<and>
   (auth_status (login D b s) = 401 \<longrightarrow>
      auth_body (login D b s) = AuthError ''Invalid email or password'') \<and>
   (findOne D (body_email b) s = Inr (Some u) \<and>
    compare D (body_password b) (user_password u) = Inr True \<and>
    sign D \<lparr>userId = user_id u, email = user_email u\<rparr> (JWT_SECRET D) (expiresIn D) = Inr tok
      \<longrightarrow> login D b s = \<lparr>auth_status = 200, auth_body = Token tok\<rparr>) \<and>
   (auth_status (login D b s) = 200 \<longrightarrow>
      (\<exists>u' tok'. findOne D (body_email b) s = Inr (Some u') \<and>
           compare D (body_password b) (user_password u') = Inr True \<and>
           sign D \<lparr>userId = user_id u', email = user_email u'\<rparr> (JWT_SECRET D) (expiresIn D)
             = Inr tok' \<and>
           auth_body (login D b s) = Token tok')) \<and>
   (JWT_EXPIRES_IN D = None \<longrightarrow> expiresIn D = ''1h'') \<and>
   (JWT_EXPIRES_IN D = Some e \<and> e \<noteq> [] \<longrightarrow> expiresIn D = e)"
proof (intro conjI)
  show "auth_status (login D b s) = 401 \<longleftrightarrow>
      findOne D (body_email b) s = Inr None \<or>
      (\<exists>u. findOne D (body_email b) s = Inr (Some u) \<and>
           compare D (body_password b) (user_password u) = Inr False)"
    by (auto simp: login_cases split: sum.splits option.splits)
  show "auth_status (login D b s) = 401 \<longrightarrow>
      auth_body (login D b s) = AuthError ''Invalid email or password''"
    by (auto simp: login_cases split: sum.splits option.splits)
  show "findOne D (body_email b) s = Inr (Some u) \<and>
    compare D (body_password b) (user_password u) = Inr True \<and>
    sign D \<lparr>userId = user_id u, email = user_email u\<rparr> (JWT_SECRET D) (expiresIn D) = Inr tok
      \<longrightarrow> login D b s = \<lparr>auth_status = 200, auth_body = Token tok\<rparr>"
    by (simp add: login_cases)
  show "auth_status (login D b s) = 200 \<longrightarrow>
      (\<exists>u' tok'. findOne D (body_email b) s = Inr (Some u') \<and>
           compare D (body_password b) (user_password u') = Inr True \<and>
           sign D \<lparr>userId = user_id u', email = user_email u'\<rparr> (JWT_SECRET D) (expiresIn D)
             = Inr tok' \<and>
           auth_body (login D b s) = Token tok')"
    by (auto simp: login_cases split: sum.splits option.splits if_splits)
  show "JWT_EXPIRES_IN D = None \<longrightarrow> expiresIn D = ''1h''"
    by (simp add: expiresIn_def)
  show "JWT_EXPIRES_IN D = Some e \<and> e \<noteq> [] \<longrightarrow> expiresIn D = e"
    by (simp add: expiresIn_def)
qed

theorem login_unauthorized_or_token_witness:
  "findOne example_deps (body_email \<lparr>body_email = ''ada@school.test'', body_password = ''pw''\<rparr>)
      example_users = Inr (Some (hd example_users)) \<and>
   compare example_deps (body_password \<lparr>body_email = ''ada@school.test'', body_password = ''pw''\<rparr>)
      (user_password (hd example_users)) = Inr True \<and>
   JWT_EXPIRES_IN example_deps = None \<and>
   login example_deps \<lparr>body_email = ''ada@school.test'', body_password = ''pw''\<rparr> example_users =
     \<lparr>auth_status = 200,
      auth_body = Token (\<lparr>userId = 7, email = ''ada@school.test''\<rparr>, ''s3cret'', ''1h'')\<rparr> \<and>
   auth_status (login example_deps \<lparr>body_email = ''ada@school.test'', body_password = ''no''\<rparr>
      example_users) = 401 \<and>
   auth_status (login example_deps \<lparr>body_email = ''eve@school.test'', body_password = ''pw''\<rparr>
      example_users) = 401"
proof -
  let ?b = "\<lparr>body_email = ''ada@school.test'', body_password = ''pw''\<rparr>"
  let ?w = "\<lparr>body_email = ''ada@school.test'', body_password = ''no''\<rparr>"
  let ?x = "\<lparr>body_email = ''eve@school.test'', body_password = ''pw''\<rparr>"
  let ?tok = "(\<lparr>userId = 7, email = ''ada@school.test''\<rparr>, ''s3cret'', ''1h'')"
  have f: "findOne example_deps (body_email ?b) example_users = Inr (Some (hd example_users))"
    and fw: "findOne example_deps (body_email ?w) example_users = Inr (Some (hd example_users))"
    and fx: "findOne example_deps (body_email ?x) example_users = Inr None"
    by (simp_all add: example_deps_def example_users_def)
  have c: "compare example_deps (body_password ?b) (user_password (hd example_users)) = Inr True"
    and cw: "compare example_deps (body_password ?w) (user_password (hd example_users)) = Inr False"
    by (simp_all add: example_deps_def example_users_def)
  have x: "JWT_EXPIRES_IN example_deps = None" by (simp add: example_deps_def)
  from login_unauthorized_or_token [of example_deps] x
  have h: "expiresIn example_deps = ''1h''" by blast
  have g: "sign example_deps
       \<lparr>userId = user_id (hd example_users), email = user_email (hd example_users)\<rparr>
       (JWT_SECRET example_deps) (expiresIn example_deps) = Inr ?tok"
    unfolding h by (simp add: example_deps_def example_users_def)
  from login_unauthorized_or_token [of example_deps ?b example_users "hd example_users" ?tok] f c g
  have 1: "login example_deps ?b example_users = \<lparr>auth_status = 200, auth_body = Token ?tok\<rparr>"
    by blast
  from login_unauthorized_or_token [of example_deps ?w example_users] fw cw
  have 2: "auth_status (login example_deps ?w example_users) = 401" by blast
  from login_unauthorized_or_token [of example_deps ?x example_users] fx
  have 3: "auth_status (login example_deps ?x example_users) = 401" by blast
  from f c x 1 2 3 show ?thesis by blast
qed

end
